theory Spec2Isabelle
  imports Complex_Main "HOL-Library.Multiset" "HOL-Library.Sublist"
    "HOL-Library.Char_ord" "HOL-Library.List_Lexorder" "HOL-Library.Option_ord" "HOL-Library.Word"
begin

section \<open>JavaScript numbers, as far as the catalog needs them\<close>

text \<open>
  A JavaScript \<^verbatim>\<open>number\<close> is modelled as a real number or one of the three special
  values. Only the sign of a difference is ever looked at (by \<^verbatim>\<open>Array.prototype.sort\<close>),
  and the sign of an IEEE difference of two finite doubles is the sign of the exact
  difference, so rounding plays no part.
\<close>

datatype jsnum = NaN | NegInf | Fin real | PosInf

text \<open>The binary \<^verbatim>\<open>a - b\<close> of JavaScript.\<close>

fun jsub :: "jsnum \<Rightarrow> jsnum \<Rightarrow> jsnum" where
  "jsub NaN _ = NaN"
| "jsub _ NaN = NaN"
| "jsub (Fin a) (Fin b) = Fin (a - b)"
| "jsub PosInf PosInf = NaN"
| "jsub NegInf NegInf = NaN"
| "jsub PosInf _ = PosInf"
| "jsub NegInf _ = NegInf"
| "jsub (Fin a) PosInf = NegInf"
| "jsub (Fin a) NegInf = PosInf"

text \<open>The smaller of two numbers, as \<^verbatim>\<open>Math.min\<close> combines its arguments.\<close>

fun jmin :: "jsnum \<Rightarrow> jsnum \<Rightarrow> jsnum" where
  "jmin NaN _ = NaN"
| "jmin _ NaN = NaN"
| "jmin NegInf _ = NegInf"
| "jmin _ NegInf = NegInf"
| "jmin PosInf b = b"
| "jmin a PosInf = a"
| "jmin (Fin a) (Fin b) = Fin (min a b)"

text \<open>\<^verbatim>\<open>Math.min(...xs)\<close>: \<^verbatim>\<open>Infinity\<close> when called with no argument.\<close>

definition Math_min :: "jsnum list \<Rightarrow> jsnum" where
  "Math_min xs = foldr jmin xs PosInf"

text \<open>The order of JavaScript numbers (\<^verbatim>\<open>a <= b\<close>); every comparison with NaN is false.\<close>

fun jle :: "jsnum \<Rightarrow> jsnum \<Rightarrow> bool" where
  "jle NaN _ = False"
| "jle _ NaN = False"
| "jle NegInf _ = True"
| "jle _ PosInf = True"
| "jle (Fin a) (Fin b) = (a \<le> b)"
| "jle _ _ = False"

text \<open>\<^verbatim>\<open>v > 0\<close>, the test that makes the sort put its first argument after the second.
  A comparator result of NaN counts as \<^verbatim>\<open>+0\<close> (ECMAScript, SortCompare).\<close>

fun jpos :: "jsnum \<Rightarrow> bool" where
  "jpos PosInf = True"
| "jpos (Fin r) = (0 < r)"
| "jpos _ = False"

section \<open>The data model\<close>

text \<open>
  \<^verbatim>\<open>interface SizeInfo { range; price; bodyLong; pantLong }\<close> and
  \<^verbatim>\<open>interface Dress { id; code; name; category; note; sizes; image_url; created_at? }\<close>.
  The fields \<^verbatim>\<open>range\<close>, \<^verbatim>\<open>id\<close> and \<^verbatim>\<open>note\<close> are renamed, their names being taken.
  A price is a finite number. The same record stands for a row of the table
  \<^verbatim>\<open>dresses\<close>: the column \<^verbatim>\<open>sizes_json\<close> is represented by the array it encodes
  (\<^verbatim>\<open>JSON.stringify\<close> on the way in, \<^verbatim>\<open>JSON.parse\<close> on the way out), a NULL
  \<^verbatim>\<open>note\<close> or \<^verbatim>\<open>created_at\<close> by \<open>None\<close>.
\<close>

record SizeInfo =
  size_range :: string
  price :: real
  bodyLong :: string
  pantLong :: string

record Dress =
  dress_id :: nat
  code :: string
  name :: string
  category :: string
  dress_note :: "string option"
  sizes :: "SizeInfo list"
  image_url :: string
  created_at :: "string option"

section \<open>The catalog query engine (\<^verbatim>\<open>filteredAndSortedDresses\<close>)\<close>

text \<open>
  \<^verbatim>\<open>Array.prototype.sort(cmp)\<close> is stable, and for a consistent comparator its result
  is the one list that is ordered and keeps equal elements in their input order. The
  model is the stable insertion sort: an element moves behind a later one only when
  the comparator says so (\<^verbatim>\<open>cmp(x, y) > 0\<close>).
\<close>

fun insert_sorted :: "('a \<Rightarrow> 'a \<Rightarrow> jsnum) \<Rightarrow> 'a \<Rightarrow> 'a list \<Rightarrow> 'a list" where
  "insert_sorted cmp x [] = [x]"
| "insert_sorted cmp x (y # ys) =
     (if jpos (cmp x y) then y # insert_sorted cmp x ys else x # y # ys)"

definition Array_sort :: "('a \<Rightarrow> 'a \<Rightarrow> jsnum) \<Rightarrow> 'a list \<Rightarrow> 'a list" where
  "Array_sort cmp xs = foldr (insert_sorted cmp) xs []"

text \<open>\<^verbatim>\<open>Math.min(...d.sizes.map(s => s.price))\<close>\<close>

definition minPrice :: "Dress \<Rightarrow> jsnum" where
  "minPrice d = Math_min (map (\<lambda>s. Fin (price s)) (sizes d))"

text \<open>
  \<^verbatim>\<open>new Date(d.created_at || 0).getTime()\<close>: a missing or empty \<^verbatim>\<open>created_at\<close> is the
  epoch; parsing a date string belongs to the JavaScript engine and is a parameter
  (it gives NaN on a string it cannot read).
\<close>

definition createdTime :: "(string \<Rightarrow> jsnum) \<Rightarrow> Dress \<Rightarrow> jsnum" where
  "createdTime Date_getTime d =
     (case created_at d of
        None \<Rightarrow> Fin 0
      | Some s \<Rightarrow> if s = [] then Fin 0 else Date_getTime s)"

text \<open>The comparator handed to \<^verbatim>\<open>result.sort\<close>.\<close>

definition compareDresses :: "(string \<Rightarrow> jsnum) \<Rightarrow> string \<Rightarrow> Dress \<Rightarrow> Dress \<Rightarrow> jsnum" where
  "compareDresses Date_getTime sortBy a b =
     (let aMinPrice = minPrice a; bMinPrice = minPrice b in
      if sortBy = ''price_asc'' then jsub aMinPrice bMinPrice
      else if sortBy = ''price_desc'' then jsub bMinPrice aMinPrice
      else if sortBy = ''newest''
        then jsub (createdTime Date_getTime b) (createdTime Date_getTime a)
      else Fin 0)"

text \<open>
  The search text is the one string that the engine looks into, so it is the list of
  its UTF-16 code units. \<^verbatim>\<open>String.prototype.trim\<close> strips, at both ends, the white
  space of ECMAScript (TAB, VT, FF, U+FEFF and the space separators of Unicode:
  U+0020, U+00A0, U+1680, U+2000 to U+200A, U+202F, U+205F, U+3000) and its line
  terminators (LF, CR, U+2028, U+2029).
\<close>

type_synonym jsstring = "16 word list"

definition isWhiteSpace :: "16 word \<Rightarrow> bool" where
  "isWhiteSpace c =
     (c \<in> set [0x0009, 0x000A, 0x000B, 0x000C, 0x000D, 0x0020, 0x00A0, 0x1680,
                0x2028, 0x2029, 0x202F, 0x205F, 0x3000, 0xFEFF] \<or>
      (0x2000 \<le> c \<and> c \<le> 0x200A))"

definition trim :: "jsstring \<Rightarrow> jsstring" where
  "trim s = rev (dropWhile isWhiteSpace (rev (dropWhile isWhiteSpace s)))"

text \<open>The three stages, in the order of the source.\<close>

definition categoryFilter :: "string \<Rightarrow> Dress list \<Rightarrow> Dress list" where
  "categoryFilter selectedCategory result =
     (if selectedCategory \<noteq> ''All''
      then filter (\<lambda>d. category d = selectedCategory) result
      else result)"

text \<open>
  \<^verbatim>\<open>new Fuse(result, {keys, threshold}).search(q).map(r => r.item)\<close> is the library
  fuse.js: a parameter of the model.
\<close>

definition fuzzySearch ::
  "(Dress list \<Rightarrow> jsstring \<Rightarrow> Dress list) \<Rightarrow> jsstring \<Rightarrow> Dress list \<Rightarrow> Dress list" where
  "fuzzySearch Fuse_search searchQuery result =
     (if trim searchQuery \<noteq> [] then Fuse_search result searchQuery else result)"

definition sorting :: "(string \<Rightarrow> jsnum) \<Rightarrow> string \<Rightarrow> Dress list \<Rightarrow> Dress list" where
  "sorting Date_getTime sortBy result = Array_sort (compareDresses Date_getTime sortBy) result"

definition filteredAndSortedDresses ::
  "(Dress list \<Rightarrow> jsstring \<Rightarrow> Dress list) \<Rightarrow> (string \<Rightarrow> jsnum) \<Rightarrow>
   Dress list \<Rightarrow> string \<Rightarrow> jsstring \<Rightarrow> string \<Rightarrow> Dress list" where
  "filteredAndSortedDresses Fuse_search Date_getTime dresses selectedCategory searchQuery sortBy =
     sorting Date_getTime sortBy
       (fuzzySearch Fuse_search searchQuery (categoryFilter selectedCategory dresses))"

section \<open>The server (\<^verbatim>\<open>server.ts\<close>)\<close>

subsection \<open>The record store and the uploads directory\<close>

text \<open>
  The state is the table \<^verbatim>\<open>dresses\<close> (its rows in rowid order), the AUTOINCREMENT
  counter that SQLite keeps in \<^verbatim>\<open>sqlite_sequence\<close>, and the files below the working
  directory, by their path from it (\<^verbatim>\<open>/uploads/<name>\<close>, the very string stored as
  \<^verbatim>\<open>image_url\<close>). A file is either one that \<^verbatim>\<open>fs.unlinkSync\<close> can remove or one
  on which it throws, with the error code (\<^verbatim>\<open>EPERM\<close>, \<^verbatim>\<open>EACCES\<close>, \<^verbatim>\<open>EBUSY\<close>, ...) that
  the operating system gives. The trace lists the mutations of the two stores in the order
  in which they took place.
\<close>

datatype fentry = Removable | Protected string

datatype effect = FsWrite string | FsUnlink string | DbInsert nat | DbUpdate nat | DbDelete nat

record server =
  dresses_table :: "Dress list"
  sqlite_sequence :: nat
  files :: "string \<rightharpoonup> fentry"
  trace :: "effect list"

datatype sqlite_error = NOT_NULL_failed string | UNIQUE_failed string

fun message :: "sqlite_error \<Rightarrow> string" where
  "message (NOT_NULL_failed col) = ''NOT NULL constraint failed: dresses.'' @ col"
| "message (UNIQUE_failed col) = ''UNIQUE constraint failed: dresses.'' @ col"

text \<open>
  What a handler sends: \<^verbatim>\<open>{ id, imageUrl }\<close>, \<^verbatim>\<open>{ success: true }\<close>, the list of
  dresses, or a status with \<^verbatim>\<open>{ error }\<close>.
\<close>

datatype response =
    Json_created nat string
  | Json_success
  | Json_dresses "Dress list"
  | Json_error nat string

text \<open>
  The multipart request as the handler reads it: the five fields of \<^verbatim>\<open>req.body\<close>
  (absent fields are \<^verbatim>\<open>undefined\<close>, bound as NULL) and \<^verbatim>\<open>req.file?.filename\<close>, the
  name multer generated for the uploaded image.
\<close>

record request =
  body_code :: "string option"
  body_name :: "string option"
  body_category :: "string option"
  body_note :: "string option"
  body_sizes :: "SizeInfo list option"
  req_file :: "string option"

text \<open>
  \<^verbatim>\<open>fs.existsSync\<close> and \<^verbatim>\<open>fs.unlinkSync\<close>; the latter throws an error that is
  represented by its code.
\<close>

definition existsSync :: "server \<Rightarrow> string \<Rightarrow> bool" where
  "existsSync s p = (files s p \<noteq> None)"

definition unlinkSync :: "string \<Rightarrow> server \<Rightarrow> string + server" where
  "unlinkSync p s =
     (case files s p of
        None \<Rightarrow> Inl ''ENOENT''
      | Some (Protected errno) \<Rightarrow> Inl errno
      | Some Removable \<Rightarrow> Inr (s\<lparr>files := (files s)(p := None), trace := trace s @ [FsUnlink p]\<rparr>))"

text \<open>
  \<^verbatim>\<open>upload.single("image")\<close> runs before the handler and writes the uploaded file
  into \<^verbatim>\<open>uploads/\<close> under its generated name.
\<close>

definition upload_single :: "request \<Rightarrow> server \<Rightarrow> server" where
  "upload_single req s =
     (case req_file req of
        None \<Rightarrow> s
      | Some fn \<Rightarrow> s\<lparr>files := (files s)(''/uploads/'' @ fn \<mapsto> Removable),
                    trace := trace s @ [FsWrite (''/uploads/'' @ fn)]\<rparr>)"

text \<open>
  \<^verbatim>\<open>INSERT INTO dresses (code, name, category, note, sizes_json, image_url)\<close>.
  SQLite checks the NOT NULL columns, then the UNIQUE index on \<^verbatim>\<open>code\<close>; the new id
  is one more than the largest id ever used; \<^verbatim>\<open>created_at\<close> defaults to the current
  time, a parameter.
\<close>

definition db_insert ::
  "string \<Rightarrow> string option \<Rightarrow> string option \<Rightarrow> string option \<Rightarrow> string option \<Rightarrow>
   SizeInfo list option \<Rightarrow> string \<Rightarrow> server \<Rightarrow> sqlite_error + (nat \<times> server)" where
  "db_insert now c n cat nt sz img s =
     (case c of None \<Rightarrow> Inl (NOT_NULL_failed ''code'') | Some c' \<Rightarrow>
     (case n of None \<Rightarrow> Inl (NOT_NULL_failed ''name'') | Some n' \<Rightarrow>
     (case cat of None \<Rightarrow> Inl (NOT_NULL_failed ''category'') | Some cat' \<Rightarrow>
     (case sz of None \<Rightarrow> Inl (NOT_NULL_failed ''sizes_json'') | Some sz' \<Rightarrow>
       (if c' \<in> set (map code (dresses_table s)) then Inl (UNIQUE_failed ''code'')
        else
          let lastInsertRowid = Suc (foldr max (map dress_id (dresses_table s)) (sqlite_sequence s));
              row = \<lparr>dress_id = lastInsertRowid, code = c', name = n', category = cat',
                     dress_note = nt, sizes = sz', image_url = img, created_at = Some now\<rparr>
          in Inr (lastInsertRowid,
                  s\<lparr>dresses_table := dresses_table s @ [row],
                    sqlite_sequence := lastInsertRowid,
                    trace := trace s @ [DbInsert lastInsertRowid]\<rparr>))))))"

text \<open>
  \<^verbatim>\<open>UPDATE dresses SET code = ?, name = ?, category = ?, note = ?, sizes_json = ?
  [, image_url = ?] WHERE id = ?\<close>. The constraints are checked on the rows the
  statement changes: when no row has the id, nothing is checked and nothing changes.
\<close>

definition db_update ::
  "nat \<Rightarrow> string option \<Rightarrow> string option \<Rightarrow> string option \<Rightarrow> string option \<Rightarrow>
   SizeInfo list option \<Rightarrow> string option \<Rightarrow> server \<Rightarrow> sqlite_error + server" where
  "db_update i c n cat nt sz img s =
     (if i \<notin> set (map dress_id (dresses_table s)) then Inr s
      else
     (case c of None \<Rightarrow> Inl (NOT_NULL_failed ''code'') | Some c' \<Rightarrow>
     (case n of None \<Rightarrow> Inl (NOT_NULL_failed ''name'') | Some n' \<Rightarrow>
     (case cat of None \<Rightarrow> Inl (NOT_NULL_failed ''category'') | Some cat' \<Rightarrow>
     (case sz of None \<Rightarrow> Inl (NOT_NULL_failed ''sizes_json'') | Some sz' \<Rightarrow>
       (if c' \<in> set (map code (filter (\<lambda>r. dress_id r \<noteq> i) (dresses_table s)))
        then Inl (UNIQUE_failed ''code'')
        else Inr (s\<lparr>dresses_table :=
                      map (\<lambda>r. if dress_id r = i
                                then r\<lparr>code := c', name := n', category := cat',
                                       dress_note := nt, sizes := sz',
                                       image_url := (case img of None \<Rightarrow> image_url r | Some u \<Rightarrow> u)\<rparr>
                                else r)
                          (dresses_table s),
                    trace := trace s @ [DbUpdate i]\<rparr>)))))))"

text \<open>\<^verbatim>\<open>SELECT image_url FROM dresses WHERE id = ?\<close> with \<^verbatim>\<open>.get\<close>: the first row, if any.\<close>

definition db_get :: "nat \<Rightarrow> server \<Rightarrow> Dress option" where
  "db_get i s = find (\<lambda>r. dress_id r = i) (dresses_table s)"

text \<open>\<^verbatim>\<open>DELETE FROM dresses WHERE id = ?\<close>\<close>

definition db_delete :: "nat \<Rightarrow> server \<Rightarrow> server" where
  "db_delete i s =
     (if i \<notin> set (map dress_id (dresses_table s)) then s
      else s\<lparr>dresses_table := filter (\<lambda>r. dress_id r \<noteq> i) (dresses_table s),
             trace := trace s @ [DbDelete i]\<rparr>)"

subsection \<open>The operator LIKE of SQLite\<close>

text \<open>
  \<^verbatim>\<open>%\<close> stands for any run of characters, \<^verbatim>\<open>_\<close> for any one character, and a letter
  of ASCII matches in either case. The pattern is the first argument.
\<close>

definition toLower :: "char \<Rightarrow> char" where
  "toLower c =
     (case map_of (zip ''ABCDEFGHIJKLMNOPQRSTUVWXYZ'' ''abcdefghijklmnopqrstuvwxyz'') c of
        None \<Rightarrow> c
      | Some l \<Rightarrow> l)"

fun like :: "string \<Rightarrow> string \<Rightarrow> bool" where
  "like [] t = (t = [])"
| "like (p # ps) [] = (p = CHR ''%'' \<and> like ps [])"
| "like (p # ps) (c # cs) =
     (if p = CHR ''%'' then like ps (c # cs) \<or> like (p # ps) cs
      else (p = CHR ''_'' \<or> toLower p = toLower c) \<and> like ps cs)"

text \<open>What the claims call a case-insensitive substring.\<close>

definition containsIgnoreCase :: "string \<Rightarrow> string \<Rightarrow> bool" where
  "containsIgnoreCase t q = sublist (map toLower q) (map toLower t)"

subsection \<open>The handlers, past \<^verbatim>\<open>authenticateToken\<close>\<close>

text \<open>
  The route parameter \<^verbatim>\<open>:id\<close> is the number it denotes; a parameter that denotes no
  number matches no row, as an absent id does. A query parameter is used when it is
  truthy: present and not the empty string.
\<close>

definition truthy :: "string option \<Rightarrow> bool" where
  "truthy p = (case p of None \<Rightarrow> False | Some v \<Rightarrow> v \<noteq> [])"

text \<open>
  \<^verbatim>\<open>GET /api/dresses\<close>: the conditions are collected in a list and joined by AND; the
  rows are ordered by \<^verbatim>\<open>created_at DESC\<close> (as text; rows of equal time stay in
  rowid order, which SQL leaves open).
\<close>

definition get_dresses :: "string option \<Rightarrow> string option \<Rightarrow> server \<Rightarrow> response" where
  "get_dresses category_param search s =
     (let conditions =
            (if truthy category_param \<and> category_param \<noteq> Some ''All''
             then [\<lambda>d. Some (category d) = category_param] else []) @
            (if truthy search
             then [\<lambda>d. like (''%'' @ the search @ ''%'') (name d) \<or>
                        like (''%'' @ the search @ ''%'') (code d) \<or>
                        like (''%'' @ the search @ ''%'') (category d)]
             else []);
          selected = filter (\<lambda>d. list_all (\<lambda>cond. cond d) conditions) (dresses_table s)
      in Json_dresses (rev (sort_key created_at (rev selected))))"

text \<open>\<^verbatim>\<open>POST /api/admin/dresses\<close>\<close>

definition post_admin_dresses :: "string \<Rightarrow> request \<Rightarrow> server \<Rightarrow> response \<times> server" where
  "post_admin_dresses now req s0 =
     (let s = upload_single req s0;
          imageUrl = ''/uploads/'' @ (case req_file req of None \<Rightarrow> ''undefined'' | Some fn \<Rightarrow> fn)
      in case db_insert now (body_code req) (body_name req) (body_category req) (body_note req)
                (body_sizes req) imageUrl s of
           Inl e \<Rightarrow> (Json_error 400 (message e), s)
         | Inr (lastInsertRowid, s') \<Rightarrow> (Json_created lastInsertRowid imageUrl, s'))"

text \<open>\<^verbatim>\<open>PUT /api/admin/dresses/:id\<close>\<close>

definition put_admin_dresses :: "nat \<Rightarrow> request \<Rightarrow> server \<Rightarrow> response \<times> server" where
  "put_admin_dresses i req s0 =
     (let s = upload_single req s0
      in case db_update i (body_code req) (body_name req) (body_category req) (body_note req)
                (body_sizes req) (map_option (\<lambda>fn. ''/uploads/'' @ fn) (req_file req)) s of
           Inl e \<Rightarrow> (Json_error 400 (message e), s)
         | Inr s' \<Rightarrow> (Json_success, s'))"

text \<open>
  \<^verbatim>\<open>DELETE /api/admin/dresses/:id\<close>. The text of \<^verbatim>\<open>error.message\<close> is written by
  Node from the error code and the absolute path of the file: a parameter.
\<close>

definition delete_admin_dresses ::
  "(string \<Rightarrow> string \<Rightarrow> string) \<Rightarrow> nat \<Rightarrow> server \<Rightarrow> response \<times> server" where
  "delete_admin_dresses error_message i s =
     (case db_get i s of
        Some dress \<Rightarrow>
          let filePath = image_url dress in
          (case (if existsSync s filePath then unlinkSync filePath s else Inr s) of
             Inl errno \<Rightarrow> (Json_error 500 (error_message errno filePath), s)
           | Inr s' \<Rightarrow> (Json_success, db_delete i s'))
      | None \<Rightarrow> (Json_error 404 ''Dress not found'', s))"

text \<open>The repository's \<^verbatim>\<open>list()\<close>: the public list with no parameter.\<close>

definition list_all_dresses :: "server \<Rightarrow> Dress list" where
  "list_all_dresses s = (case get_dresses None None s of Json_dresses ds \<Rightarrow> ds | _ \<Rightarrow> [])"

text \<open>An image reference resolves when the static file server finds the file.\<close>

definition resolvable :: "server \<Rightarrow> Dress \<Rightarrow> bool" where
  "resolvable s d = existsSync s (image_url d)"

text \<open>What \<^verbatim>\<open>res.json\<close> carried, when it was a list of dresses.\<close>

definition sent_dresses :: "response \<Rightarrow> Dress list" where
  "sent_dresses r = (case r of Json_dresses ds \<Rightarrow> ds | _ \<Rightarrow> [])"

text \<open>A search text in which LIKE finds no wildcard.\<close>

definition plain :: "string \<Rightarrow> bool" where
  "plain q = list_all (\<lambda>c. c \<noteq> CHR ''%'' \<and> c \<noteq> CHR ''_'') q"

section \<open>Example data\<close>

text \<open>
  The two records of the specification's scenario (A1, Summer, from 500; B2, Winter,
  from 800), a record without variants, a store holding the first two, the same
  store with an image that cannot be removed, a rendering of file system errors
  that shows their code alone, and the requests.
\<close>

definition size_of_price :: "real \<Rightarrow> SizeInfo" where
  "size_of_price p = \<lparr>size_range = ''M'', price = p, bodyLong = [], pantLong = []\<rparr>"

definition dress_A1 :: Dress where
  "dress_A1 = \<lparr>dress_id = 1, code = ''A1'', name = ''Frock'', category = ''Summer'',
     dress_note = None, sizes = [size_of_price 500, size_of_price 650],
     image_url = ''/uploads/a1.jpg'', created_at = Some ''2024-01-01 10:00:00''\<rparr>"

definition dress_B2 :: Dress where
  "dress_B2 = \<lparr>dress_id = 2, code = ''B2'', name = ''Coat'', category = ''Winter'',
     dress_note = Some ''warm_lined'', sizes = [size_of_price 800],
     image_url = ''/uploads/b2.jpg'', created_at = Some ''2024-01-02 10:00:00''\<rparr>"

definition dress_N0 :: Dress where
  "dress_N0 = \<lparr>dress_id = 3, code = ''N0'', name = ''Shawl'', category = ''Winter'',
     dress_note = None, sizes = [],
     image_url = ''/uploads/undefined'', created_at = Some ''2024-01-03 10:00:00''\<rparr>"

definition shop :: server where
  "shop = \<lparr>dresses_table = [dress_A1, dress_B2], sqlite_sequence = 2,
     files = [''/uploads/a1.jpg'' \<mapsto> Removable, ''/uploads/b2.jpg'' \<mapsto> Removable],
     trace = []\<rparr>"

definition shop_locked :: server where
  "shop_locked = shop\<lparr>files := (files shop)(''/uploads/b2.jpg'' \<mapsto> Protected ''EPERM'')\<rparr>"

definition errno_only :: "string \<Rightarrow> string \<Rightarrow> string" where
  "errno_only errno filePath = errno"

definition req_no_variants :: request where
  "req_no_variants = \<lparr>body_code = Some ''N0'', body_name = Some ''Shawl'',
     body_category = Some ''Winter'', body_note = None, body_sizes = Some [], req_file = None\<rparr>"

definition req_no_variants_image :: request where
  "req_no_variants_image = req_no_variants\<lparr>req_file := Some ''n0.jpg''\<rparr>"

definition dress_N0_image :: Dress where
  "dress_N0_image = dress_N0\<lparr>image_url := ''/uploads/n0.jpg''\<rparr>"

definition req_duplicate :: request where
  "req_duplicate = \<lparr>body_code = Some ''A1'', body_name = Some ''Gown'',
     body_category = Some ''Summer'', body_note = None,
     body_sizes = Some [size_of_price 700], req_file = Some ''dup.jpg''\<rparr>"

definition req_duplicate_unnamed :: request where
  "req_duplicate_unnamed = req_duplicate\<lparr>body_name := None\<rparr>"

definition req_edit :: request where
  "req_edit = \<lparr>body_code = Some ''A1'', body_name = Some ''Frock'',
     body_category = Some ''Spring'', body_note = None,
     body_sizes = Some [size_of_price 500, size_of_price 650], req_file = None\<rparr>"

definition req_new_image :: request where
  "req_new_image = req_edit\<lparr>req_file := Some ''new.jpg''\<rparr>"

section \<open>Facts about numbers and the sort\<close>

lemmas example_defs = dress_A1_def dress_B2_def dress_N0_def size_of_price_def

lemmas server_defs = post_admin_dresses_def put_admin_dresses_def delete_admin_dresses_def
  upload_single_def db_insert_def db_update_def db_get_def db_delete_def existsSync_def
  unlinkSync_def resolvable_def Let_def
lemmas request_defs = req_no_variants_def req_duplicate_def req_edit_def req_new_image_def
  req_no_variants_image_def req_duplicate_unnamed_def dress_N0_image_def
  shop_def shop_locked_def errno_only_def

lemmas sort_eval = sorting_def Array_sort_def compareDresses_def minPrice_def Math_min_def

lemma jpos_jsub: "a \<noteq> NaN \<Longrightarrow> b \<noteq> NaN \<Longrightarrow> jpos (jsub a b) \<longleftrightarrow> \<not> jle a b"
  by (cases a; cases b; auto)




lemma Math_min_prices: "Math_min (map (\<lambda>s. Fin (price s)) xs) =
   (if xs = [] then PosInf else Fin (Min (price ` set xs)))"
proof (induction xs)
  case Nil
  then show ?case by (simp add: Math_min_def)
next
  case (Cons x xs)
  then show ?case by (cases "xs = []") (simp_all add: Math_min_def min.commute)
qed

lemma minPrice_eq: "minPrice d = (if sizes d = [] then PosInf else Fin (Min (price ` set (sizes d))))"
  by (simp add: minPrice_def Math_min_prices)

lemma minPrice_not_NaN: "minPrice d \<noteq> NaN"
  by (simp add: minPrice_eq)

lemma mset_insert_sorted: "mset (insert_sorted cmp x ys) = add_mset x (mset ys)"
  by (induction ys) simp_all

lemma mset_Array_sort: "mset (Array_sort cmp xs) = mset xs"
  by (induction xs) (simp_all add: Array_sort_def mset_insert_sorted)

lemma set_Array_sort: "set (Array_sort cmp xs) = set xs"
  by (metis mset_Array_sort set_mset_mset)

lemma Array_sort_Cons: "Array_sort cmp (x # xs) = insert_sorted cmp x (Array_sort cmp xs)"
  by (simp add: Array_sort_def)

lemma Array_sort_Nil: "Array_sort cmp [] = []"
  by (simp add: Array_sort_def)







lemma cmp_asc: "compareDresses dg ''price_asc'' a b = jsub (minPrice a) (minPrice b)"
  by (simp add: compareDresses_def)

lemma cmp_desc: "compareDresses dg ''price_desc'' a b = jsub (minPrice b) (minPrice a)"
  by (simp add: compareDresses_def)

lemma jpos_asc: "jpos (compareDresses dg ''price_asc'' a b) \<longleftrightarrow> \<not> jle (minPrice a) (minPrice b)"
  by (simp add: cmp_asc jpos_jsub minPrice_not_NaN)

lemma jpos_desc: "jpos (compareDresses dg ''price_desc'' a b) \<longleftrightarrow> \<not> jle (minPrice b) (minPrice a)"
  by (simp add: cmp_desc jpos_jsub minPrice_not_NaN)







lemma insert_sorted_front:
  "\<forall>y\<in>set ys. \<not> jpos (cmp x y) \<Longrightarrow> insert_sorted cmp x ys = x # ys"
  by (cases ys) simp_all

lemma insert_sorted_append_skip:
  "\<forall>a\<in>set as. jpos (cmp x a) \<Longrightarrow> insert_sorted cmp x (as @ bs) = as @ insert_sorted cmp x bs"
  by (induction as) simp_all

lemma insert_sorted_append_stop:
  "\<forall>b\<in>set bs. \<not> jpos (cmp x b) \<Longrightarrow> insert_sorted cmp x (as @ bs) = insert_sorted cmp x as @ bs"
  by (induction as) (simp_all add: insert_sorted_front)

lemma asc_split:
  "sorting dg ''price_asc'' L =
     sorting dg ''price_asc'' (filter (\<lambda>d. sizes d \<noteq> []) L) @ filter (\<lambda>d. sizes d = []) L"
proof (induction L)
  case Nil
  then show ?case by (simp add: sorting_def Array_sort_Nil)
next
  case (Cons x L)
  let ?c = "compareDresses dg ''price_asc''"
  let ?A = "Array_sort ?c (filter (\<lambda>d. sizes d \<noteq> []) L)"
  let ?E = "filter (\<lambda>d. sizes d = []) L"
  from Cons have IH: "Array_sort ?c L = ?A @ ?E" by (simp add: sorting_def)
  show ?case
  proof (cases "sizes x = []")
    case True
    have "\<forall>a\<in>set ?A. jpos (?c x a)"
      using True by (auto simp: set_Array_sort jpos_asc minPrice_eq)
    moreover have "\<forall>e\<in>set ?E. \<not> jpos (?c x e)"
      using True by (auto simp: jpos_asc minPrice_eq)
    ultimately have "insert_sorted ?c x (?A @ ?E) = ?A @ x # ?E"
      by (simp add: insert_sorted_append_skip insert_sorted_front)
    with True IH show ?thesis by (simp add: sorting_def Array_sort_Cons)
  next
    case False
    have "\<forall>e\<in>set ?E. \<not> jpos (?c x e)"
      using False by (auto simp: jpos_asc minPrice_eq)
    then have "insert_sorted ?c x (?A @ ?E) = insert_sorted ?c x ?A @ ?E"
      by (rule insert_sorted_append_stop)
    with False IH show ?thesis by (simp add: sorting_def Array_sort_Cons)
  qed
qed

lemma desc_split:
  "sorting dg ''price_desc'' L =
     filter (\<lambda>d. sizes d = []) L @ sorting dg ''price_desc'' (filter (\<lambda>d. sizes d \<noteq> []) L)"
proof (induction L)
  case Nil
  then show ?case by (simp add: sorting_def Array_sort_Nil)
next
  case (Cons x L)
  let ?c = "compareDresses dg ''price_desc''"
  let ?A = "Array_sort ?c (filter (\<lambda>d. sizes d \<noteq> []) L)"
  let ?E = "filter (\<lambda>d. sizes d = []) L"
  from Cons have IH: "Array_sort ?c L = ?E @ ?A" by (simp add: sorting_def)
  show ?case
  proof (cases "sizes x = []")
    case True
    have "\<forall>y\<in>set (?E @ ?A). \<not> jpos (?c x y)"
      using True by (auto simp: set_Array_sort jpos_desc minPrice_eq)
    then have "insert_sorted ?c x (?E @ ?A) = x # ?E @ ?A"
      by (rule insert_sorted_front)
    with True IH show ?thesis by (simp add: sorting_def Array_sort_Cons)
  next
    case False
    have "\<forall>e\<in>set ?E. jpos (?c x e)"
      using False by (auto simp: jpos_desc minPrice_eq)
    then have "insert_sorted ?c x (?E @ ?A) = ?E @ insert_sorted ?c x ?A"
      by (rule insert_sorted_append_skip)
    with False IH show ?thesis by (simp add: sorting_def Array_sort_Cons)
  qed
qed

section \<open>The claims about the query engine\<close>

text \<open>
  C1, as the code has it. The engine is a total function of its typed input: nothing
  in it raises. A record without variants is not left out of the price comparisons:
  \<^verbatim>\<open>Math.min()\<close> of no argument is \<^verbatim>\<open>Infinity\<close>, so the record is ranked as the most
  expensive one. Under \<^verbatim>\<open>price_asc\<close> the records with variants come first, sorted,
  and the records without variants follow in their input order; under
  \<^verbatim>\<open>price_desc\<close> the records without variants come first.
\<close>

theorem no_variants_sort_last_or_first:
  "sorting Date_getTime ''price_asc'' L =
     sorting Date_getTime ''price_asc'' (filter (\<lambda>d. sizes d \<noteq> []) L) @ filter (\<lambda>d. sizes d = []) L \<and>
   sorting Date_getTime ''price_desc'' L =
     filter (\<lambda>d. sizes d = []) L @ sorting Date_getTime ''price_desc'' (filter (\<lambda>d. sizes d \<noteq> []) L)"
  using asc_split desc_split by blast

theorem no_variants_sort_witness:
  "sorting (\<lambda>_. NaN) ''price_asc'' [dress_N0, dress_B2, dress_A1] = [dress_A1, dress_B2, dress_N0] \<and>
   sorting (\<lambda>_. NaN) ''price_desc'' [dress_A1, dress_N0, dress_B2] = [dress_N0, dress_B2, dress_A1]"
  using no_variants_sort_last_or_first [of "\<lambda>_. NaN" "[dress_N0, dress_B2, dress_A1]"]
    no_variants_sort_last_or_first [of "\<lambda>_. NaN" "[dress_A1, dress_N0, dress_B2]"]
  by (simp add: sort_eval example_defs)

text \<open>
  The claim as worded fails: the comparator does rank the record without variants
  against a priced one (the difference is \<^verbatim>\<open>Infinity\<close>), and the sort moves it behind
  the priced record under \<^verbatim>\<open>price_asc\<close> and in front of it under \<^verbatim>\<open>price_desc\<close>.
\<close>

theorem no_variants_ranked_counterexample:
  "compareDresses (\<lambda>_. NaN) ''price_asc'' dress_N0 dress_A1 = PosInf \<and>
   sorting (\<lambda>_. NaN) ''price_asc'' [dress_N0, dress_A1] = [dress_A1, dress_N0] \<and>
   sorting (\<lambda>_. NaN) ''price_desc'' [dress_A1, dress_N0] = [dress_N0, dress_A1]"
  by (simp add: sort_eval example_defs)



text \<open>
  C3. With a category other than "All" the category stage keeps exactly the records
  of that category, in their order; with "All" it returns the list as it is.
\<close>

theorem category_filter_exact:
  "(C \<noteq> ''All'' \<longrightarrow> categoryFilter C L = filter (\<lambda>d. category d = C) L) \<and>
   categoryFilter ''All'' L = L"
  by (simp add: categoryFilter_def)

theorem category_filter_exact_witness:
  "''Summer'' \<noteq> ''All'' \<and> categoryFilter ''Summer'' [dress_A1, dress_B2] = [dress_A1] \<and>
   categoryFilter ''All'' [dress_A1, dress_B2] = [dress_A1, dress_B2]"
  using category_filter_exact [of "''Summer''" "[dress_A1, dress_B2]"]
  by (simp add: example_defs)

text \<open>
  C4. When the search text is empty once trimmed (of all the white space that
  \<^verbatim>\<open>trim\<close> strips, not that of ASCII alone), the search stage returns the
  category-filtered list unchanged, and the whole pipeline is the sort of that list.
\<close>

theorem empty_search_excludes_nothing:
  "trim searchQuery = [] \<Longrightarrow>
     fuzzySearch Fuse_search searchQuery (categoryFilter C L) = categoryFilter C L \<and>
     filteredAndSortedDresses Fuse_search Date_getTime L C searchQuery sortBy =
       sorting Date_getTime sortBy (categoryFilter C L)"
  by (simp add: fuzzySearch_def filteredAndSortedDresses_def)

theorem empty_search_excludes_nothing_witness:
  "trim [0x0020, 0x00A0, 0x2003, 0x3000, 0xFEFF, 0x000A] = [] \<and>
   fuzzySearch (\<lambda>ds q. []) [0x0020, 0x00A0, 0x2003, 0x3000, 0xFEFF, 0x000A]
     (categoryFilter ''Winter'' [dress_A1, dress_B2, dress_N0]) = [dress_B2, dress_N0]"
proof -
  have t: "trim [0x0020, 0x00A0, 0x2003, 0x3000, 0xFEFF, 0x000A] = []"
    by (simp add: trim_def isWhiteSpace_def)
  from empty_search_excludes_nothing
    [OF t, of "\<lambda>ds q. []" "''Winter''" "[dress_A1, dress_B2, dress_N0]"]
  show ?thesis using t by (simp add: categoryFilter_def example_defs)
qed

section \<open>Facts about LIKE and the handlers\<close>

lemma like_percent: "like (CHR ''%'' # ps) t \<longleftrightarrow> (\<exists>n\<le>length t. like ps (drop n t))"
proof (induction t)
  case Nil
  then show ?case by simp
next
  case (Cons c cs)
  have "(\<exists>n\<le>length (c # cs). like ps (drop n (c # cs))) \<longleftrightarrow>
        like ps (c # cs) \<or> (\<exists>n\<le>length cs. like ps (drop n cs))"
  proof
    assume "\<exists>n\<le>length (c # cs). like ps (drop n (c # cs))"
    then obtain n where n: "n \<le> length (c # cs)" "like ps (drop n (c # cs))" by blast
    show "like ps (c # cs) \<or> (\<exists>n\<le>length cs. like ps (drop n cs))"
    proof (cases n)
      case 0
      with n show ?thesis by simp
    next
      case (Suc m)
      with n have "m \<le> length cs" "like ps (drop m cs)" by simp_all
      then show ?thesis by blast
    qed
  next
    assume "like ps (c # cs) \<or> (\<exists>n\<le>length cs. like ps (drop n cs))"
    then show "\<exists>n\<le>length (c # cs). like ps (drop n (c # cs))"
    proof
      assume "like ps (c # cs)"
      then have "0 \<le> length (c # cs) \<and> like ps (drop 0 (c # cs))" by simp
      then show ?thesis by blast
    next
      assume "\<exists>n\<le>length cs. like ps (drop n cs)"
      then obtain n where "n \<le> length cs" "like ps (drop n cs)" by blast
      then have "Suc n \<le> length (c # cs) \<and> like ps (drop (Suc n) (c # cs))" by simp
      then show ?thesis by blast
    qed
  qed
  with Cons show ?case by simp
qed

lemma like_plain:
  "plain q \<Longrightarrow> like (q @ ps) t \<longleftrightarrow>
     (length q \<le> length t \<and> map toLower (take (length q) t) = map toLower q \<and>
      like ps (drop (length q) t))"
proof (induction q arbitrary: t)
  case Nil
  then show ?case by simp
next
  case (Cons a q)
  then have a: "a \<noteq> CHR ''%''" "a \<noteq> CHR ''_''" and q: "plain q" by (simp_all add: plain_def)
  show ?case
  proof (cases t)
    case Nil
    with a show ?thesis by simp
  next
    case (Cons c cs)
    with a Cons.IH[OF q, of cs] show ?thesis by auto
  qed
qed

lemma like_percent_last: "like ''%'' t"
  by (simp add: like_percent) (rule exI[of _ "length t"], simp)

lemma like_substring:
  assumes "plain q"
  shows "like (CHR ''%'' # q @ ''%'') t \<longleftrightarrow> containsIgnoreCase t q"
proof -
  have "like (CHR ''%'' # q @ ''%'') t \<longleftrightarrow>
        (\<exists>n\<le>length t. length q \<le> length (drop n t) \<and>
            map toLower (take (length q) (drop n t)) = map toLower q)"
    using like_percent[of "q @ ''%''" t] by (simp add: like_plain[OF assms] like_percent_last)
  also have "\<dots> \<longleftrightarrow> sublist (map toLower q) (map toLower t)"
  proof
    assume "\<exists>n\<le>length t. length q \<le> length (drop n t) \<and>
            map toLower (take (length q) (drop n t)) = map toLower q"
    then obtain n where n: "n \<le> length t" "length q \<le> length (drop n t)"
      "map toLower (take (length q) (drop n t)) = map toLower q" by blast
    have "t = take n t @ take (length q) (drop n t) @ drop (length q) (drop n t)"
      by (metis append_take_drop_id)
    then have "map toLower t = map toLower (take n t) @ map toLower q @
        map toLower (drop (length q) (drop n t))"
      using n(3) by (metis map_append)
    then show "sublist (map toLower q) (map toLower t)" unfolding sublist_def by blast
  next
    assume "sublist (map toLower q) (map toLower t)"
    then obtain us vs where eq: "map toLower t = us @ map toLower q @ vs"
      unfolding sublist_def by blast
    then have len: "length t = length us + length q + length vs"
      by (metis length_append length_map add.assoc)
    have "map toLower (take (length q) (drop (length us) t)) =
          take (length q) (drop (length us) (map toLower t))"
      by (simp add: take_map drop_map)
    also have "\<dots> = map toLower q" by (simp add: eq)
    finally show "\<exists>n\<le>length t. length q \<le> length (drop n t) \<and>
            map toLower (take (length q) (drop n t)) = map toLower q"
      using len by (intro exI[of _ "length us"]) simp
  qed
  finally show ?thesis by (simp add: containsIgnoreCase_def)
qed

lemma set_get_dresses:
  "set (sent_dresses (get_dresses cat search s)) =
     {d \<in> set (dresses_table s).
        (truthy cat \<and> cat \<noteq> Some ''All'' \<longrightarrow> Some (category d) = cat) \<and>
        (truthy search \<longrightarrow> like (''%'' @ the search @ ''%'') (name d) \<or>
                           like (''%'' @ the search @ ''%'') (code d) \<or>
                           like (''%'' @ the search @ ''%'') (category d))}"
  by (auto simp: get_dresses_def sent_dresses_def Let_def)

lemma db_get_None: "db_get i s = None \<longleftrightarrow> i \<notin> set (map dress_id (dresses_table s))"
  by (auto simp: db_get_def find_None_iff)

lemma db_get_Some: "db_get i s = Some d \<Longrightarrow> i \<in> set (map dress_id (dresses_table s))"
  using db_get_None[of i s] by auto

lemma set_list_all_dresses: "set (list_all_dresses s) = set (dresses_table s)"
  by (simp add: list_all_dresses_def get_dresses_def truthy_def)

lemma get_dresses_category:
  "set (sent_dresses (get_dresses (Some C) None s)) =
     (if C = [] \<or> C = ''All'' then set (dresses_table s)
      else {d \<in> set (dresses_table s). category d = C})"
  by (auto simp: set_get_dresses truthy_def)

lemma delete_absent:
  "i \<notin> set (map dress_id (dresses_table s)) \<Longrightarrow>
     delete_admin_dresses error_message i s = (Json_error 404 ''Dress not found'', s)"
  using db_get_None[of i s] by (simp add: delete_admin_dresses_def)

lemma delete_success_table:
  assumes "fst (delete_admin_dresses error_message i s) = Json_success"
  shows "dresses_table (snd (delete_admin_dresses error_message i s)) =
           filter (\<lambda>r. dress_id r \<noteq> i) (dresses_table s)"
  using assms db_get_Some[of i s]
  by (auto simp: delete_admin_dresses_def db_delete_def unlinkSync_def existsSync_def Let_def
      split: option.splits fentry.splits if_splits)

lemma delete_present:
  assumes "db_get i s = Some d"
  shows "case files s (image_url d) of
       Some Removable \<Rightarrow>
         delete_admin_dresses error_message i s =
           (Json_success,
            s\<lparr>dresses_table := filter (\<lambda>r. dress_id r \<noteq> i) (dresses_table s),
              files := (files s)(image_url d := None),
              trace := trace s @ [FsUnlink (image_url d), DbDelete i]\<rparr>)
     | Some (Protected errno) \<Rightarrow>
         delete_admin_dresses error_message i s = (Json_error 500 (error_message errno (image_url d)), s)
     | None \<Rightarrow>
         delete_admin_dresses error_message i s =
           (Json_success,
            s\<lparr>dresses_table := filter (\<lambda>r. dress_id r \<noteq> i) (dresses_table s),
              trace := trace s @ [DbDelete i]\<rparr>)"
  using assms db_get_Some[OF assms]
  by (auto simp: delete_admin_dresses_def db_delete_def unlinkSync_def existsSync_def Let_def
      split: option.splits fentry.splits)

lemma put_absent_id:
  "i \<notin> set (map dress_id (dresses_table s)) \<Longrightarrow>
     fst (put_admin_dresses i req s) = Json_success \<and>
     dresses_table (snd (put_admin_dresses i req s)) = dresses_table s"
  by (auto simp: server_defs split: option.splits)

lemma put_keeps_files:
  "files (snd (put_admin_dresses i req s)) =
     (case req_file req of
        None \<Rightarrow> files s
      | Some fn \<Rightarrow> (files s)(''/uploads/'' @ fn \<mapsto> Removable))"
  by (auto simp: server_defs split: option.splits)

section \<open>The claims about the record lifecycle\<close>







text \<open>
  C7. An update of an id that the store does not hold is answered with
  \<^verbatim>\<open>{ success: true }\<close> and leaves the store as it was: the statement changes no
  row and raises nothing, where the delete handler answers 404.
\<close>

theorem update_absent_id_reports_success:
  "put_admin_dresses 99 req_edit shop = (Json_success, shop)"
  by (simp add: server_defs request_defs example_defs)

text \<open>
  C8, as the code has it. A delete of an absent id is answered with 404 and changes
  nothing; after a successful delete the list no longer holds the id and a second
  delete is answered with 404. When the id is present, the image file is removed
  first (if it exists) and the row second; when the file cannot be removed, the
  request fails with status 500 and the row stays.
\<close>

theorem delete_removes_file_then_record:
  "(i \<notin> set (map dress_id (dresses_table s)) \<longrightarrow>
      delete_admin_dresses error_message i s = (Json_error 404 ''Dress not found'', s)) \<and>
   (fst (delete_admin_dresses error_message i s) = Json_success \<longrightarrow>
      i \<notin> set (map dress_id (list_all_dresses (snd (delete_admin_dresses error_message i s)))) \<and>
      fst (delete_admin_dresses error_message i (snd (delete_admin_dresses error_message i s))) =
        Json_error 404 ''Dress not found'') \<and>
   (\<forall>d. db_get i s = Some d \<longrightarrow>
      (case files s (image_url d) of
         Some Removable \<Rightarrow>
           delete_admin_dresses error_message i s =
             (Json_success,
              s\<lparr>dresses_table := filter (\<lambda>r. dress_id r \<noteq> i) (dresses_table s),
                files := (files s)(image_url d := None),
                trace := trace s @ [FsUnlink (image_url d), DbDelete i]\<rparr>)
       | Some (Protected errno) \<Rightarrow>
           delete_admin_dresses error_message i s = (Json_error 500 (error_message errno (image_url d)), s)
       | None \<Rightarrow>
           delete_admin_dresses error_message i s =
             (Json_success,
              s\<lparr>dresses_table := filter (\<lambda>r. dress_id r \<noteq> i) (dresses_table s),
                trace := trace s @ [DbDelete i]\<rparr>)))"
proof (intro conjI impI allI)
  assume "i \<notin> set (map dress_id (dresses_table s))"
  then show "delete_admin_dresses error_message i s = (Json_error 404 ''Dress not found'', s)"
    by (rule delete_absent)
next
  assume ok: "fst (delete_admin_dresses error_message i s) = Json_success"
  have gone: "i \<notin> set (map dress_id (dresses_table (snd (delete_admin_dresses error_message i s))))"
    by (auto simp: delete_success_table[OF ok])
  then show "i \<notin> set (map dress_id (list_all_dresses (snd (delete_admin_dresses error_message i s))))"
    by (simp add: set_list_all_dresses)
  from gone show "fst (delete_admin_dresses error_message i (snd (delete_admin_dresses error_message i s))) =
      Json_error 404 ''Dress not found''"
    by (simp add: delete_absent)
next
  fix d assume "db_get i s = Some d"
  then show "case files s (image_url d) of
       Some Removable \<Rightarrow>
         delete_admin_dresses error_message i s =
           (Json_success,
            s\<lparr>dresses_table := filter (\<lambda>r. dress_id r \<noteq> i) (dresses_table s),
              files := (files s)(image_url d := None),
              trace := trace s @ [FsUnlink (image_url d), DbDelete i]\<rparr>)
     | Some (Protected errno) \<Rightarrow>
         delete_admin_dresses error_message i s = (Json_error 500 (error_message errno (image_url d)), s)
     | None \<Rightarrow>
         delete_admin_dresses error_message i s =
           (Json_success,
            s\<lparr>dresses_table := filter (\<lambda>r. dress_id r \<noteq> i) (dresses_table s),
              trace := trace s @ [DbDelete i]\<rparr>)"
    by (rule delete_present)
qed

theorem delete_removes_file_then_record_witness:
  "db_get 1 shop = Some dress_A1 \<and>
   fst (delete_admin_dresses errno_only 1 shop) = Json_success \<and>
   trace (snd (delete_admin_dresses errno_only 1 shop)) = [FsUnlink ''/uploads/a1.jpg'', DbDelete 1] \<and>
   1 \<notin> set (map dress_id (list_all_dresses (snd (delete_admin_dresses errno_only 1 shop)))) \<and>
   fst (delete_admin_dresses errno_only 1 (snd (delete_admin_dresses errno_only 1 shop))) =
     Json_error 404 ''Dress not found'' \<and>
   99 \<notin> set (map dress_id (dresses_table shop)) \<and>
   delete_admin_dresses errno_only 99 shop = (Json_error 404 ''Dress not found'', shop)"
proof -
  have g: "db_get 1 shop = Some dress_A1"
    by (simp add: db_get_def request_defs example_defs)
  have f: "files shop ''/uploads/a1.jpg'' = Some Removable" "image_url dress_A1 = ''/uploads/a1.jpg''"
    "trace shop = []"
    by (simp_all add: request_defs example_defs)
  have a: "99 \<notin> set (map dress_id (dresses_table shop))"
    by (simp add: request_defs example_defs)
  note T = delete_removes_file_then_record [where i = 1 and s = shop and error_message = errno_only]
  from T g have "case files shop (image_url dress_A1) of
       Some Removable \<Rightarrow>
         delete_admin_dresses errno_only 1 shop =
           (Json_success,
            shop\<lparr>dresses_table := filter (\<lambda>r. dress_id r \<noteq> 1) (dresses_table shop),
              files := (files shop)(image_url dress_A1 := None),
              trace := trace shop @ [FsUnlink (image_url dress_A1), DbDelete 1]\<rparr>)
     | Some (Protected errno) \<Rightarrow>
         delete_admin_dresses errno_only 1 shop = (Json_error 500 (errno_only errno (image_url dress_A1)), shop)
     | None \<Rightarrow>
         delete_admin_dresses errno_only 1 shop =
           (Json_success,
            shop\<lparr>dresses_table := filter (\<lambda>r. dress_id r \<noteq> 1) (dresses_table shop),
              trace := trace shop @ [DbDelete 1]\<rparr>)"
    by blast
  then have d: "fst (delete_admin_dresses errno_only 1 shop) = Json_success"
    "trace (snd (delete_admin_dresses errno_only 1 shop)) = [FsUnlink ''/uploads/a1.jpg'', DbDelete 1]"
    by (simp_all add: f)
  from T d(1) have l: "1 \<notin> set (map dress_id (list_all_dresses (snd (delete_admin_dresses errno_only 1 shop))))"
    "fst (delete_admin_dresses errno_only 1 (snd (delete_admin_dresses errno_only 1 shop))) =
       Json_error 404 ''Dress not found''"
    by blast+
  from delete_removes_file_then_record [where i = 99 and s = shop and error_message = errno_only] a
  have "delete_admin_dresses errno_only 99 shop = (Json_error 404 ''Dress not found'', shop)" by blast
  with g d l a show ?thesis by blast
qed

text \<open>
  The claim as worded fails: when the image cannot be removed the row is still
  listed; and a successful delete removes the file before the row.
\<close>

theorem delete_order_counterexample:
  "delete_admin_dresses errno_only 2 shop_locked =
     (Json_error 500 ''EPERM'', shop_locked) \<and>
   dress_B2 \<in> set (list_all_dresses (snd (delete_admin_dresses errno_only 2 shop_locked))) \<and>
   fst (delete_admin_dresses errno_only 1 shop) = Json_success \<and>
   trace (snd (delete_admin_dresses errno_only 1 shop)) = [FsUnlink ''/uploads/a1.jpg'', DbDelete 1]"
  by (simp add: server_defs request_defs example_defs list_all_dresses_def get_dresses_def truthy_def)

text \<open>
  C9. An update with a new image stores the new file, then points the row at it,
  and stops there: the previous image file is still in the uploads directory, and no
  removal has taken place.
\<close>

theorem update_keeps_previous_image:
  "fst (put_admin_dresses 1 req_new_image shop) = Json_success \<and>
   map image_url (dresses_table (snd (put_admin_dresses 1 req_new_image shop))) =
     [''/uploads/new.jpg'', ''/uploads/b2.jpg''] \<and>
   files (snd (put_admin_dresses 1 req_new_image shop)) ''/uploads/a1.jpg'' = Some Removable \<and>
   trace (snd (put_admin_dresses 1 req_new_image shop)) =
     [FsWrite ''/uploads/new.jpg'', DbUpdate 1]"
  by (simp add: server_defs request_defs example_defs)

text \<open>
  C10, as the code has it. The search parameter is matched by LIKE against name,
  code and category, never against the note. For a search text that is not empty
  and holds neither \<^verbatim>\<open>%\<close> nor \<^verbatim>\<open>_\<close>, the rows sent are exactly those of the requested
  category in which name, code or category contains the text, letters of ASCII
  compared without case; a record that only its note would match is not sent.
\<close>

theorem search_plain_text_ignores_note:
  assumes "q \<noteq> []" and "plain q"
  shows "set (sent_dresses (get_dresses cat (Some q) s)) =
     {d \<in> set (dresses_table s).
        (truthy cat \<and> cat \<noteq> Some ''All'' \<longrightarrow> Some (category d) = cat) \<and>
        (containsIgnoreCase (name d) q \<or> containsIgnoreCase (code d) q \<or>
         containsIgnoreCase (category d) q)} \<and>
     (\<forall>d. \<not> containsIgnoreCase (name d) q \<and> \<not> containsIgnoreCase (code d) q \<and>
          \<not> containsIgnoreCase (category d) q \<longrightarrow>
          d \<notin> set (sent_dresses (get_dresses cat (Some q) s)))"
  using assms by (simp add: set_get_dresses like_substring truthy_def)

theorem search_plain_text_ignores_note_witness:
  "''warm'' \<noteq> [] \<and> plain ''warm'' \<and> dress_note dress_B2 = Some ''warm_lined'' \<and>
   containsIgnoreCase ''warm_lined'' ''warm'' \<and> dress_B2 \<in> set (dresses_table shop) \<and>
   dress_B2 \<notin> set (sent_dresses (get_dresses None (Some ''warm'') shop))"
proof -
  have h: "''warm'' \<noteq> []" "plain ''warm''" by (simp_all add: plain_def)
  have n: "\<not> containsIgnoreCase (name dress_B2) ''warm''" "\<not> containsIgnoreCase (code dress_B2) ''warm''"
    "\<not> containsIgnoreCase (category dress_B2) ''warm''"
    by (simp_all add: containsIgnoreCase_def toLower_def sublist_code example_defs)
  have m: "dress_note dress_B2 = Some ''warm_lined''" "containsIgnoreCase ''warm_lined'' ''warm''"
    "dress_B2 \<in> set (dresses_table shop)"
    by (simp_all add: containsIgnoreCase_def toLower_def sublist_code request_defs example_defs)
  from search_plain_text_ignores_note [OF h, of None shop] n
  have "dress_B2 \<notin> set (sent_dresses (get_dresses None (Some ''warm'') shop))" by blast
  with h m show ?thesis by blast
qed

text \<open>
  The claim as worded fails on a search text with a wildcard: \<^verbatim>\<open>_\<close> occurs in the
  note of the record and in none of its name, code and category, and the record is
  sent all the same, since \<^verbatim>\<open>%_%\<close> matches every name that is not empty.
\<close>

theorem search_wildcard_counterexample:
  "dress_note dress_B2 = Some ''warm_lined'' \<and> containsIgnoreCase ''warm_lined'' ''_'' \<and>
   \<not> containsIgnoreCase (name dress_B2) ''_'' \<and> \<not> containsIgnoreCase (code dress_B2) ''_'' \<and>
   \<not> containsIgnoreCase (category dress_B2) ''_'' \<and>
   dress_B2 \<in> set (sent_dresses (get_dresses None (Some ''_'') shop))"
  by (simp add: containsIgnoreCase_def toLower_def sublist_code get_dresses_def sent_dresses_def
      truthy_def request_defs example_defs)

end
